theory Spec2Isabelle
  imports Main
begin

section \<open>The library catalog: documents, collections and the resolver context\<close>

text \<open>
  The repository holds three versions of one GraphQL server. The newest one
  (\<^verbatim>\<open>src/unnamed/part_000\<close>: authentication, the \<^verbatim>\<open>bookAdded\<close> subscription, a
  \<^verbatim>\<open>Token\<close> with \<^verbatim>\<open>favoriteGenre\<close>) is modelled in full. \<^verbatim>\<open>src/index.js\<close> holds the
  two earlier ones; their resolvers are modelled where they differ from the newest
  (\<open>allAuthors\<close>, \<open>login\<close>), under the suffix \<open>_index\<close>.

  A Mongoose document is a record, a collection is the list of its documents in
  insertion order (the order \<^verbatim>\<open>find\<close> and \<^verbatim>\<open>findOne\<close> scan), an \<^verbatim>\<open>ObjectId\<close> is
  a natural number.
\<close>

type_synonym oid = nat

record author =
  name :: string
  born :: "int option"
  author_id :: oid

record book =
  title :: string
  published :: "int option"
  author_ref :: oid
  genres :: "string list"
  book_id :: oid

record user =
  username :: string
  favoriteGenre :: string
  user_id :: oid

text \<open>
  A book after \<^verbatim>\<open>book.populate('author')\<close>: the document together with the Author
  its \<^verbatim>\<open>author\<close> reference resolves to, \<open>None\<close> (JavaScript \<^verbatim>\<open>null\<close>) when no
  Author has that identifier.
\<close>

type_synonym populated_book = "book \<times> author option"

text \<open>
  The state the resolvers read and write: the three collections, and the payloads
  published so far on the \<^verbatim>\<open>'BOOK_ADDED'\<close> channel of \<^verbatim>\<open>pubsub\<close>, oldest first.
\<close>

record state =
  books :: "book list"
  authors :: "author list"
  users :: "user list"
  BOOK_ADDED :: "populated_book list"

text \<open>
  The errors a resolver can end with. \<open>TypeError\<close> is what JavaScript raises on a
  property access on \<^verbatim>\<open>null\<close>; \<open>JsonWebTokenError\<close> is what \<^verbatim>\<open>jwt.verify\<close> raises.
\<close>

datatype error =
    AuthenticationError string
  | UserInputError string
  | TypeError
  | JsonWebTokenError

text \<open>
  What a call takes from outside the resolvers. The files \<^verbatim>\<open>models/author.js\<close>,
  \<^verbatim>\<open>models/book.js\<close> and \<^verbatim>\<open>models/user.js\<close> (the Mongoose schemas with their
  validators and unique indexes) and the database itself are not under \<^verbatim>\<open>src/\<close>, so
  they are parameters: the \<^verbatim>\<open>ObjectId\<close> a constructor gives a new document, and for
  each collection a function that, from the collection's documents and the document
  being saved, gives \<open>Some msg\<close> when \<^verbatim>\<open>save()\<close> is rejected with the message
  \<open>msg\<close> and \<open>None\<close> when it is written.
\<close>

record env =
  new_author_id :: oid
  new_book_id :: oid
  new_user_id :: oid
  author_save_error :: "author list \<Rightarrow> author \<Rightarrow> string option"
  book_save_error :: "book list \<Rightarrow> book \<Rightarrow> string option"
  user_save_error :: "user list \<Rightarrow> user \<Rightarrow> string option"

subsection \<open>Lookups\<close>

text \<open>\<^verbatim>\<open>Author.findOne({ name: n })\<close>, \<^verbatim>\<open>Book.findOne({ title: t })\<close>,
  \<^verbatim>\<open>User.findOne({ username: n })\<close>, \<^verbatim>\<open>User.findById(i)\<close>: the first matching
  document, or \<^verbatim>\<open>null\<close>.\<close>

definition findOne_author :: "author list \<Rightarrow> string \<Rightarrow> author option" where
  "findOne_author as n = find (\<lambda>a. name a = n) as"

definition findOne_book :: "book list \<Rightarrow> string \<Rightarrow> book option" where
  "findOne_book bs t = find (\<lambda>b. title b = t) bs"

definition findOne_user :: "user list \<Rightarrow> string \<Rightarrow> user option" where
  "findOne_user us n = find (\<lambda>u. username u = n) us"

definition findById_user :: "user list \<Rightarrow> oid \<Rightarrow> user option" where
  "findById_user us i = find (\<lambda>u. user_id u = i) us"

definition findById_author :: "author list \<Rightarrow> oid \<Rightarrow> author option" where
  "findById_author as i = find (\<lambda>a. author_id a = i) as"

definition populate :: "state \<Rightarrow> book \<Rightarrow> populated_book" where
  "populate s b = (b, findById_author (authors s) (author_ref b))"

text \<open>\<^verbatim>\<open>save()\<close> of a document that is already stored writes it over the stored
  document with its \<^verbatim>\<open>_id\<close>.\<close>

fun update_author :: "author \<Rightarrow> author list \<Rightarrow> author list" where
  "update_author a' [] = []"
| "update_author a' (a # as) =
     (if author_id a = author_id a' then a' # as else a # update_author a' as)"

section \<open>Mutations\<close>

subsection \<open>editAuthor\<close>

record editAuthor_args =
  editAuthor_name :: string
  editAuthor_setBornTo :: int

text \<open>
  \<^verbatim>\<open>editAuthor\<close> (part_000 lines 229-251, the same text in index.js): after the
  authentication check, \<^verbatim>\<open>author.born = args.setBornTo\<close> is executed on the result
  of \<^verbatim>\<open>findOne\<close> with no test for \<^verbatim>\<open>null\<close>, and outside the \<^verbatim>\<open>try\<close> block.
\<close>

definition editAuthor ::
  "env \<Rightarrow> user option \<Rightarrow> editAuthor_args \<Rightarrow> state \<Rightarrow> (error + author) \<times> state" where
  "editAuthor E currentUser args s =
     (if currentUser = None then (Inl (AuthenticationError ''not authenticated''), s)
      else case findOne_author (authors s) (editAuthor_name args) of
        None \<Rightarrow> (Inl TypeError, s)
      | Some a \<Rightarrow>
          (let author' = a\<lparr>born := Some (editAuthor_setBornTo args)\<rparr> in
           case author_save_error E (authors s) author' of
             Some msg \<Rightarrow> (Inl (UserInputError msg), s)
           | None \<Rightarrow> (Inr author', s\<lparr>authors := update_author author' (authors s)\<rparr>)))"

subsection \<open>addBook\<close>

text \<open>
  The arguments of \<^verbatim>\<open>addBook\<close>. The schema types \<^verbatim>\<open>published\<close> as \<^verbatim>\<open>Int!\<close>; the
  resolver still compares it with \<^verbatim>\<open>null\<close>, so it is an option here. An absent
  \<^verbatim>\<open>genres\<close> is the empty list.
\<close>

record addBook_args =
  addBook_title :: string
  addBook_author :: string
  addBook_published :: "int option"
  addBook_genres :: "string list"

text \<open>
  Lines 198-212 of part_000, ``Create author if author does not exist'': the Author
  with the given name, or a new one (\<^verbatim>\<open>born: null\<close>) saved to the collection.
\<close>

definition find_or_create_author ::
  "env \<Rightarrow> addBook_args \<Rightarrow> state \<Rightarrow> (error + author) \<times> state" where
  "find_or_create_author E args s =
     (case findOne_author (authors s) (addBook_author args) of
        Some a \<Rightarrow> (Inr a, s)
      | None \<Rightarrow>
          if length (addBook_author args) < 4
          then (Inl (UserInputError
                  ''The length of the author's name must be at least 4 characters long''), s)
          else
            (let author = \<lparr>name = addBook_author args, born = None,
                            author_id = new_author_id E\<rparr> in
             case author_save_error E (authors s) author of
               Some msg \<Rightarrow> (Inl (UserInputError msg), s)
             | None \<Rightarrow> (Inr author, s\<lparr>authors := authors s @ [author]\<rparr>)))"

text \<open>
  \<^verbatim>\<open>addBook\<close> (part_000 lines 175-228). The new book is populated before it is
  saved; after a successful save it is published on \<^verbatim>\<open>'BOOK_ADDED'\<close> and returned.
\<close>

definition addBook ::
  "env \<Rightarrow> user option \<Rightarrow> addBook_args \<Rightarrow> state \<Rightarrow> (error + populated_book) \<times> state" where
  "addBook E currentUser args s =
     (if currentUser = None then (Inl (AuthenticationError ''not authenticated''), s)
      else if addBook_title args = [] \<or> addBook_author args = []
              \<or> addBook_published args = None
        then (Inl (UserInputError
                ''The title, author and published fields must all have valid values''), s)
      else if length (addBook_title args) < 2
        then (Inl (UserInputError
                ''The length of the title must be at least 2 characters long''), s)
      else if findOne_book (books s) (addBook_title args) \<noteq> None
        then (Inl (UserInputError ''Title must be unique''), s)
      else
        (case find_or_create_author E args s of
           (Inl e, s1) \<Rightarrow> (Inl e, s1)
         | (Inr author, s1) \<Rightarrow>
             (let book = \<lparr>title = addBook_title args, published = addBook_published args,
                           author_ref = author_id author, genres = addBook_genres args,
                           book_id = new_book_id E\<rparr>;
                  populated = populate s1 book
              in case book_save_error E (books s1) book of
                   Some msg \<Rightarrow> (Inl (UserInputError msg), s1)
                 | None \<Rightarrow>
                     (Inr populated,
                      s1\<lparr>books := books s1 @ [book],
                         BOOK_ADDED := BOOK_ADDED s1 @ [populated]\<rparr>))))"

subsection \<open>createUser\<close>

record createUser_args =
  createUser_username :: string
  createUser_favoriteGenre :: string

definition createUser :: "env \<Rightarrow> createUser_args \<Rightarrow> state \<Rightarrow> (error + user) \<times> state" where
  "createUser E args s =
     (let user = \<lparr>username = createUser_username args,
                   favoriteGenre = createUser_favoriteGenre args,
                   user_id = new_user_id E\<rparr> in
      case user_save_error E (users s) user of
        Some msg \<Rightarrow> (Inl (UserInputError msg), s)
      | None \<Rightarrow> (Inr user, s\<lparr>users := users s @ [user]\<rparr>))"

subsection \<open>login and the request context\<close>

text \<open>
  The package \<^verbatim>\<open>jsonwebtoken\<close> is not part of the repository: \<^verbatim>\<open>jwt.sign\<close> and
  \<^verbatim>\<open>jwt.verify\<close> are parameters. \<open>jwt_verify\<close> gives \<open>None\<close> where \<^verbatim>\<open>jwt.verify\<close>
  raises.
\<close>

record token_payload =
  payload_username :: string
  payload_id :: oid

record jwt_lib =
  jwt_sign :: "token_payload \<Rightarrow> string \<Rightarrow> string"
  jwt_verify :: "string \<Rightarrow> string \<Rightarrow> token_payload option"

definition JWT_SECRET :: string where
  "JWT_SECRET = ''NEED_HERE_A_SECRET_KEY''"

record login_args =
  login_username :: string
  login_password :: string

text \<open>
  The object \<^verbatim>\<open>login\<close> returns for the GraphQL type \<^verbatim>\<open>Token\<close>: \<^verbatim>\<open>value\<close>, and
  \<^verbatim>\<open>favoriteGenre\<close> where the object has that property.
\<close>

record token =
  token_value :: string
  token_favoriteGenre :: "string option"

text \<open>\<^verbatim>\<open>login\<close> of part_000 (lines 262-279).\<close>

definition login :: "jwt_lib \<Rightarrow> state \<Rightarrow> login_args \<Rightarrow> error + token" where
  "login J s args =
     (let user = findOne_user (users s) (login_username args) in
      if user = None \<or> login_password args \<noteq> ''secret''
      then Inl (UserInputError ''wrong credentials'')
      else
        (let userForToken = \<lparr>payload_username = username (the user),
                               payload_id = user_id (the user)\<rparr>
         in Inr \<lparr>token_value = jwt_sign J userForToken JWT_SECRET,
                 token_favoriteGenre = Some (favoriteGenre (the user))\<rparr>))"

text \<open>\<^verbatim>\<open>login\<close> of index.js (lines 262-275): the returned object is
  \<^verbatim>\<open>{ value: jwt.sign(userForToken, JWT_SECRET) }\<close>.\<close>

definition login_index :: "jwt_lib \<Rightarrow> state \<Rightarrow> login_args \<Rightarrow> error + token" where
  "login_index J s args =
     (let user = findOne_user (users s) (login_username args) in
      if user = None \<or> login_password args \<noteq> ''secret''
      then Inl (UserInputError ''wrong credentials'')
      else
        (let userForToken = \<lparr>payload_username = username (the user),
                               payload_id = user_id (the user)\<rparr>
         in Inr \<lparr>token_value = jwt_sign J userForToken JWT_SECRET,
                 token_favoriteGenre = None\<rparr>))"

text \<open>
  \<^verbatim>\<open>String.prototype.toLowerCase\<close> on one character of a header value (a byte, read
  as Latin-1): the upper-case letters move by 32.
\<close>

definition toLowerCase_char :: "char \<Rightarrow> char" where
  "toLowerCase_char c =
     (let n = (of_char c :: nat) in
      if (65 \<le> n \<and> n \<le> 90) \<or> (192 \<le> n \<and> n \<le> 222 \<and> n \<noteq> 215)
      then char_of (n + 32) else c)"

definition toLowerCase :: "string \<Rightarrow> string" where
  "toLowerCase str = map toLowerCase_char str"

definition startsWith :: "string \<Rightarrow> string \<Rightarrow> bool" where
  "startsWith str p = (take (length p) str = p)"

text \<open>
  The \<^verbatim>\<open>context\<close> function of the server (part_000 lines 314-325), from the value
  of the \<^verbatim>\<open>authorization\<close> header (\<open>None\<close> when there is none) to
  \<^verbatim>\<open>currentUser\<close>. Without a bearer header the function returns nothing and the
  resolvers see no current user.
\<close>

definition context_currentUser :: "jwt_lib \<Rightarrow> state \<Rightarrow> string option \<Rightarrow> error + user option" where
  "context_currentUser J s auth =
     (if auth \<noteq> None \<and> auth \<noteq> Some [] \<and> startsWith (toLowerCase (the auth)) ''bearer ''
      then
        (case jwt_verify J (drop 7 (the auth)) JWT_SECRET of
           None \<Rightarrow> Inl JsonWebTokenError
         | Some decodedToken \<Rightarrow> Inr (findById_user (users s) (payload_id decodedToken)))
      else Inr None)"

section \<open>Queries\<close>

subsection \<open>allBooks\<close>

record allBooks_args =
  allBooks_author :: "string option"
  allBooks_genre :: "string option"

text \<open>An optional string argument used as a condition: \<^verbatim>\<open>null\<close>, \<^verbatim>\<open>undefined\<close>
  and the empty string are falsy.\<close>

definition truthy :: "string option \<Rightarrow> bool" where
  "truthy x = (x \<noteq> None \<and> x \<noteq> Some [])"

text \<open>
  \<^verbatim>\<open>allBooks\<close> (part_000 lines 102-161, the same branches in index.js). In the two
  branches with an author, \<^verbatim>\<open>author._id\<close> is read from the result of \<^verbatim>\<open>findOne\<close>
  with no test for \<^verbatim>\<open>null\<close>.
\<close>

definition allBooks :: "state \<Rightarrow> allBooks_args \<Rightarrow> error + populated_book list" where
  "allBooks s args =
     (if truthy (allBooks_author args) \<and> truthy (allBooks_genre args) then
        (case findOne_author (authors s) (the (allBooks_author args)) of
           None \<Rightarrow> Inl TypeError
         | Some author \<Rightarrow>
             Inr (map (populate s)
                   (filter (\<lambda>b. the (allBooks_genre args) \<in> set (genres b)
                                \<and> author_ref b \<in> set [author_id author]) (books s))))
      else if truthy (allBooks_author args) then
        (case findOne_author (authors s) (the (allBooks_author args)) of
           None \<Rightarrow> Inl TypeError
         | Some author \<Rightarrow>
             Inr (map (populate s)
                   (filter (\<lambda>b. author_ref b \<in> set [author_id author]) (books s))))
      else if truthy (allBooks_genre args) then
        Inr (map (populate s)
              (filter (\<lambda>b. the (allBooks_genre args) \<in> set (genres b)) (books s)))
      else Inr (map (populate s) (books s)))"

subsection \<open>allAuthors\<close>

text \<open>
  An object returned for the GraphQL type \<^verbatim>\<open>Author\<close>: the stored document, and
  the value of its \<^verbatim>\<open>bookCount\<close> property where the object has one.
\<close>

type_synonym author_object = "author \<times> nat option"

text \<open>\<^verbatim>\<open>allAuthors\<close> of part_000 (lines 162-172): \<^verbatim>\<open>Author.find({})\<close>, returned as
  it is.\<close>

definition allAuthors :: "state \<Rightarrow> author_object list" where
  "allAuthors s = map (\<lambda>a. (a, None)) (authors s)"

text \<open>
  \<^verbatim>\<open>allAuthors\<close> of index.js (lines 146-174, and again in the oldest version): all
  books are populated, and for each author the inner loop adds one to \<^verbatim>\<open>bookCount\<close>
  for each book with \<^verbatim>\<open>book.author.name === author.name\<close>. Reading \<^verbatim>\<open>.name\<close> of a
  \<^verbatim>\<open>null\<close> author raises a TypeError.
\<close>

fun count_books :: "author \<Rightarrow> populated_book list \<Rightarrow> nat \<Rightarrow> error + nat" where
  "count_books author [] bookCount = Inr bookCount"
| "count_books author ((b, None) # bs) bookCount = Inl TypeError"
| "count_books author ((b, Some ba) # bs) bookCount =
     count_books author bs (if name ba = name author then bookCount + 1 else bookCount)"

fun authors_with_bookCount :: "author list \<Rightarrow> populated_book list \<Rightarrow> error + author_object list" where
  "authors_with_bookCount [] bs = Inr []"
| "authors_with_bookCount (author # as) bs =
     (case count_books author bs 0 of
        Inl e \<Rightarrow> Inl e
      | Inr bookCount \<Rightarrow>
          (case authors_with_bookCount as bs of
             Inl e \<Rightarrow> Inl e
           | Inr rest \<Rightarrow> Inr ((author, Some bookCount) # rest)))"

definition allAuthors_index :: "state \<Rightarrow> error + author_object list" where
  "allAuthors_index s = authors_with_bookCount (authors s) (map (populate s) (books s))"

text \<open>\<^verbatim>\<open>bookCount\<close> and \<^verbatim>\<open>authorCount\<close>: \<^verbatim>\<open>countDocuments()\<close> of the collection.\<close>

definition bookCount :: "state \<Rightarrow> nat" where
  "bookCount s = length (books s)"

definition authorCount :: "state \<Rightarrow> nat" where
  "authorCount s = length (authors s)"

section \<open>Sequences of operations\<close>

text \<open>
  One request to the server, with what the call takes from outside, and the state
  it leaves behind. Queries and \<^verbatim>\<open>login\<close> have no write in their code.
\<close>

datatype request =
    AddBook env "user option" addBook_args
  | EditAuthor env "user option" editAuthor_args
  | CreateUser env createUser_args
  | Login jwt_lib login_args
  | AllBooks allBooks_args
  | AllAuthors
  | BookCount
  | AuthorCount

fun step :: "request \<Rightarrow> state \<Rightarrow> state" where
  "step (AddBook E currentUser args) s = snd (addBook E currentUser args s)"
| "step (EditAuthor E currentUser args) s = snd (editAuthor E currentUser args s)"
| "step (CreateUser E args) s = snd (createUser E args s)"
| "step (Login J args) s = s"
| "step (AllBooks args) s = s"
| "step AllAuthors s = s"
| "step BookCount s = s"
| "step AuthorCount s = s"

fun run :: "request list \<Rightarrow> state \<Rightarrow> state" where
  "run [] s = s"
| "run (r # rs) s = run rs (step r s)"

text \<open>Every stored Book's \<^verbatim>\<open>author\<close> reference resolves to a stored Author.\<close>

definition refs_resolve :: "state \<Rightarrow> bool" where
  "refs_resolve s = (\<forall>b \<in> set (books s). snd (populate s b) \<noteq> None)"

section \<open>Example data\<close>

definition accept_all :: env where
  "accept_all = \<lparr>new_author_id = 100, new_book_id = 200, new_user_id = 300,
     author_save_error = (\<lambda>_ _. None), book_save_error = (\<lambda>_ _. None),
     user_save_error = (\<lambda>_ _. None)\<rparr>"

definition alice :: user where
  "alice = \<lparr>username = ''alice'', favoriteGenre = ''tech'', user_id = 7\<rparr>"

definition martin :: author where
  "martin = \<lparr>name = ''Robert Martin'', born = Some 1952, author_id = 1\<rparr>"

definition clean_code :: book where
  "clean_code = \<lparr>title = ''Clean Code'', published = Some 2008, author_ref = 1,
     genres = [''tech''], book_id = 10\<rparr>"

definition library :: state where
  "library = \<lparr>books = [clean_code], authors = [martin], users = [alice], BOOK_ADDED = []\<rparr>"

definition fowler :: author where
  "fowler = \<lparr>name = ''Martin Fowler'', born = None, author_id = 100\<rparr>"

definition refactoring :: book where
  "refactoring = \<lparr>title = ''Refactoring'', published = Some 1999, author_ref = 100,
     genres = [''tech''], book_id = 200\<rparr>"

text \<open>A call in which the database rejects the write of a book.\<close>

definition reject_books :: env where
  "reject_books = accept_all\<lparr>book_save_error := (\<lambda>_ _. Some ''Book validation failed'')\<rparr>"

definition refactoring_args :: addBook_args where
  "refactoring_args = \<lparr>addBook_title = ''Refactoring'', addBook_author = ''Martin Fowler'',
     addBook_published = Some 1999, addBook_genres = [''tech'']\<rparr>"

definition clean_code_args :: addBook_args where
  "clean_code_args = \<lparr>addBook_title = ''Clean Code'', addBook_author = ''Robert Martin'',
     addBook_published = Some 2008, addBook_genres = [''tech'']\<rparr>"

text \<open>
  A stand-in for \<^verbatim>\<open>jsonwebtoken\<close> on which the examples can run: the token is the
  secret, the identifier in unary and the username, separated by bars.
\<close>

definition toy_sign :: "token_payload \<Rightarrow> string \<Rightarrow> string" where
  "toy_sign p k = k @ ''|'' @ replicate (payload_id p) (CHR ''I'') @ ''|'' @ payload_username p"

definition toy_verify :: "string \<Rightarrow> string \<Rightarrow> token_payload option" where
  "toy_verify t k =
     (if take (length k + 1) t = k @ ''|''
      then
        (let rest = drop (length k + 1) t;
             n = length (takeWhile (\<lambda>c. c = CHR ''I'') rest)
         in Some \<lparr>payload_username = drop (n + 1) rest, payload_id = n\<rparr>)
      else None)"

definition toy_jwt :: jwt_lib where
  "toy_jwt = \<lparr>jwt_sign = toy_sign, jwt_verify = toy_verify\<rparr>"

section \<open>Facts about the lookups and the writes\<close>

lemma find_SomeD: "find P xs = Some x \<Longrightarrow> x \<in> set xs \<and> P x"
  by (induction xs) (auto split: if_splits)

lemma find_or_create_author_frame:
  "find_or_create_author E args s = (r, s1) \<Longrightarrow>
     BOOK_ADDED s1 = BOOK_ADDED s \<and> books s1 = books s \<and> users s1 = users s"
  by (auto simp: find_or_create_author_def Let_def split: option.splits if_splits)

lemma findOne_book_None_iff:
  "findOne_book bs t = None \<longleftrightarrow> t \<notin> title ` set bs"
  by (auto simp: findOne_book_def find_None_iff)

lemma addBook_books:
  "books (snd (addBook E cu args s)) = books s
   \<or> (addBook_title args \<notin> title ` set (books s)
      \<and> (\<exists>b. title b = addBook_title args
             \<and> books (snd (addBook E cu args s)) = books s @ [b]))"
  by (auto simp: addBook_def Let_def findOne_book_None_iff
      split: prod.splits sum.splits option.splits dest: find_or_create_author_frame)

lemma editAuthor_books: "books (snd (editAuthor E cu args s)) = books s"
  by (simp add: editAuthor_def Let_def split: option.splits)

lemma createUser_books: "books (snd (createUser E args s)) = books s"
  by (simp add: createUser_def Let_def split: option.splits)

lemma step_titles:
  "distinct (map title (books s)) \<Longrightarrow> distinct (map title (books (step r s)))"
proof (cases r)
  case (AddBook E cu args)
  assume d: "distinct (map title (books s))"
  from addBook_books [of E cu args s] d AddBook show ?thesis
    by auto
qed (simp_all add: editAuthor_books createUser_books)

lemma run_titles:
  "distinct (map title (books s)) \<Longrightarrow> distinct (map title (books (run rs s)))"
  by (induction rs arbitrary: s) (simp_all add: step_titles)

lemma update_author_map:
  "distinct (map author_id as) \<Longrightarrow> a \<in> set as \<Longrightarrow> author_id a' = author_id a \<Longrightarrow>
     update_author a' as = map (\<lambda>x. if x = a then a' else x) as"
proof (induction as)
  case Nil
  then show ?case by simp
next
  case (Cons x xs)
  show ?case
  proof (cases "x = a")
    case True
    with Cons.prems have "a \<notin> set xs"
      by auto
    then have "map (\<lambda>x. if x = a then a' else x) xs = xs"
      by (induction xs) auto
    with True Cons.prems show ?thesis
      by simp
  next
    case False
    with Cons.prems have "a \<in> set xs" "author_id x \<noteq> author_id a"
      by auto
    with Cons False show ?thesis
      by simp
  qed
qed

text \<open>The two loops of the older \<^verbatim>\<open>allAuthors\<close>, in closed form.\<close>

lemma count_books_eq:
  "count_books a pbs n =
     (if \<exists>pb \<in> set pbs. snd pb = None then Inl TypeError
      else Inr (n + length (filter (\<lambda>pb. map_option name (snd pb) = Some (name a)) pbs)))"
  by (induction a pbs n rule: count_books.induct) auto

lemma authors_with_bookCount_eq:
  "authors_with_bookCount as pbs =
     (if as \<noteq> [] \<and> (\<exists>pb \<in> set pbs. snd pb = None) then Inl TypeError
      else Inr (map (\<lambda>a. (a, Some (length (filter
                  (\<lambda>pb. map_option name (snd pb) = Some (name a)) pbs)))) as))"
  by (induction as) (auto simp: count_books_eq)

lemma allAuthors_index_eq:
  "allAuthors_index s =
     (if authors s \<noteq> [] \<and> (\<exists>b \<in> set (books s). snd (populate s b) = None) then Inl TypeError
      else Inr (map (\<lambda>a. (a, Some (length (filter
                  (\<lambda>b. map_option name (snd (populate s b)) = Some (name a)) (books s)))))
                 (authors s)))"
  by (simp add: allAuthors_index_def authors_with_bookCount_eq filter_map o_def)

text \<open>No request leaves a Book whose author reference does not resolve.\<close>

lemma findById_author_None_iff:
  "findById_author as i = None \<longleftrightarrow> i \<notin> author_id ` set as"
  by (auto simp: findById_author_def find_None_iff)

lemma refs_resolve_iff:
  "refs_resolve s \<longleftrightarrow> author_ref ` set (books s) \<subseteq> author_id ` set (authors s)"
  by (auto simp: refs_resolve_def populate_def findById_author_None_iff)

lemma update_author_ids: "map author_id (update_author a' as) = map author_id as"
  by (induction as) auto

lemma update_author_id_set: "author_id ` set (update_author a' as) = author_id ` set as"
  using update_author_ids [of a' as] by (metis list.set_map)

lemma editAuthor_refs: "refs_resolve s \<Longrightarrow> refs_resolve (snd (editAuthor E cu args s))"
  by (auto simp: refs_resolve_iff editAuthor_def Let_def update_author_id_set
      split: option.splits)

lemma createUser_refs: "refs_resolve s \<Longrightarrow> refs_resolve (snd (createUser E args s))"
  by (auto simp: refs_resolve_iff createUser_def Let_def split: option.splits)

lemma find_or_create_author_refs:
  "find_or_create_author E args s = (r, s1) \<Longrightarrow>
     set (authors s) \<subseteq> set (authors s1) \<and> (\<forall>a. r = Inr a \<longrightarrow> a \<in> set (authors s1))"
  by (auto simp: find_or_create_author_def findOne_author_def Let_def
      split: option.splits if_splits dest: find_SomeD)

lemma addBook_refs: "refs_resolve s \<Longrightarrow> refs_resolve (snd (addBook E cu args s))"
proof -
  assume r: "refs_resolve s"
  obtain x s1 where f: "find_or_create_author E args s = (x, s1)"
    by (cases "find_or_create_author E args s")
  from find_or_create_author_refs [OF f]
  have m: "author_id ` set (authors s) \<subseteq> author_id ` set (authors s1)"
    and a: "\<forall>a. x = Inr a \<longrightarrow> a \<in> set (authors s1)"
    by (simp_all add: image_mono)
  from m find_or_create_author_frame [OF f] r have r1: "refs_resolve s1"
    by (simp add: refs_resolve_iff)
  from r r1 a f show ?thesis
    by (auto simp: addBook_def Let_def refs_resolve_iff split: sum.splits option.splits)
qed

lemma step_refs: "refs_resolve s \<Longrightarrow> refs_resolve (step r s)"
  by (cases r) (simp_all add: addBook_refs editAuthor_refs createUser_refs)

lemma run_refs: "refs_resolve s \<Longrightarrow> refs_resolve (run rs s)"
  by (induction rs arbitrary: s) (simp_all add: step_refs)

text \<open>The header \<^verbatim>\<open>Bearer <token>\<close> passes the test of the context function, and
  the stand-in for the token library returns what was signed.\<close>

lemma bearer_prefix: "startsWith (toLowerCase (''Bearer '' @ t)) ''bearer ''"
  apply (simp add: startsWith_def toLowerCase_def toLowerCase_char_def)
  apply code_simp
  done

lemma toy_roundtrip: "toy_verify (toy_sign p k) k = Some p"
proof -
  have "takeWhile (\<lambda>c. c = CHR ''I'')
          (replicate (payload_id p) (CHR ''I'') @ ''|'' @ payload_username p)
        = replicate (payload_id p) (CHR ''I'')"
    by (induction "payload_id p" arbitrary: p) (simp_all add: takeWhile_append2 takeWhile_tail)
  then show ?thesis
    by (simp add: toy_verify_def toy_sign_def Let_def)
qed

section \<open>editAuthor on a name that no Author has\<close>

text \<open>
  Claim C1. The comment of \<^verbatim>\<open>editAuthor\<close> says ``If the author is not present, return
  null''. The code does not: for an authenticated caller and a name that no Author
  has, \<^verbatim>\<open>findOne\<close> gives \<^verbatim>\<open>null\<close> and the assignment \<^verbatim>\<open>author.born = ...\<close> raises a
  TypeError. Nothing is written. Evaluated here for the name \<open>''Nobody''\<close> on a
  catalog whose only Author is Robert Martin.
\<close>

theorem editAuthor_unknown_name_raises:
  "editAuthor accept_all (Some alice)
     \<lparr>editAuthor_name = ''Nobody'', editAuthor_setBornTo = 1900\<rparr> library
   = (Inl TypeError, library)"
  by (simp add: editAuthor_def findOne_author_def library_def martin_def)

section \<open>allBooks with the name of no Author\<close>

text \<open>
  Claim C2. With an author name that no Author has, \<^verbatim>\<open>allBooks\<close> does not return
  the empty sequence: \<^verbatim>\<open>findOne\<close> gives \<^verbatim>\<open>null\<close> and reading \<^verbatim>\<open>author._id\<close> raises
  a TypeError. Evaluated here for the name \<open>''Nobody''\<close> and no genre.
\<close>

theorem allBooks_unknown_author_raises:
  "allBooks library \<lparr>allBooks_author = Some ''Nobody'', allBooks_genre = None\<rparr>
   = Inl TypeError"
  by (simp add: allBooks_def truthy_def findOne_author_def library_def martin_def)

section \<open>allAuthors and the book count\<close>

text \<open>
  Claim C3. The comment of \<^verbatim>\<open>allAuthors\<close> in part_000 says ``Return a list of the
  authors with book counts'', and the \<^verbatim>\<open>allAuthors\<close> of index.js does so. The code
  of part_000 does not: it returns the stored Authors as they are. Evaluated here on
  the example catalog, in which Robert Martin has one Book and is returned with no
  \<^verbatim>\<open>bookCount\<close>.
\<close>

theorem allAuthors_no_bookCount:
  "allAuthors library = [(martin, None)]
   \<and> length (filter (\<lambda>b. map_option name (snd (populate library b)) = Some (name martin))
               (books library)) = 1"
  by (simp add: allAuthors_def populate_def findById_author_def library_def martin_def
      clean_code_def)

text \<open>
  The two versions side by side. The \<^verbatim>\<open>allAuthors\<close> of part_000 returns every stored
  Author, none with a \<^verbatim>\<open>bookCount\<close>. Whenever the \<^verbatim>\<open>allAuthors\<close> of index.js
  returns, it returns every stored Author with \<^verbatim>\<open>bookCount\<close> equal to the number of
  Books whose resolved author has that Author's name; and it returns in every state
  in which each Book's author reference resolves, and in every state reached from
  such a state by any sequence of requests.
\<close>

theorem allAuthors_bookCount:
  "map fst (allAuthors s) = authors s
   \<and> (\<forall>ao \<in> set (allAuthors s). snd ao = None)
   \<and> (\<forall>r. allAuthors_index s = Inr r \<longrightarrow>
          r = map (\<lambda>a. (a, Some (length (filter
                  (\<lambda>b. map_option name (snd (populate s b)) = Some (name a)) (books s)))))
                (authors s))
   \<and> (refs_resolve s \<longrightarrow> (\<forall>rs. \<exists>r. allAuthors_index (run rs s) = Inr r))"
proof -
  have "\<exists>r. allAuthors_index (run rs s) = Inr r" if "refs_resolve s" for rs
    using run_refs [OF that, of rs] by (auto simp: allAuthors_index_eq refs_resolve_def)
  then show ?thesis
    by (auto simp: allAuthors_def o_def allAuthors_index_eq split: if_splits)
qed

theorem allAuthors_bookCount_witness:
  "map snd (allAuthors library) = [None]
   \<and> allAuthors_index library = Inr [(martin, Some 1)]
   \<and> (\<exists>r. allAuthors_index (run [AddBook accept_all (Some alice) refactoring_args] library)
            = Inr r)"
proof -
  have p: "refs_resolve library"
    by (simp add: refs_resolve_def populate_def findById_author_def library_def martin_def
        clean_code_def)
  from p allAuthors_bookCount [of library] have
    n: "\<And>rs. \<exists>r. allAuthors_index (run rs library) = Inr r"
    by blast
  from n [of "[]"] obtain r where r: "allAuthors_index library = Inr r"
    by auto
  with allAuthors_bookCount [of library]
  have "r = map (\<lambda>a. (a, Some (length (filter
                  (\<lambda>b. map_option name (snd (populate library b)) = Some (name a))
                  (books library)))))
                (authors library)"
    by blast
  also have "\<dots> = [(martin, Some 1)]"
    by (simp add: populate_def findById_author_def library_def martin_def clean_code_def)
  finally have 1: "allAuthors_index library = Inr [(martin, Some 1)]"
    using r by simp
  have 2: "map snd (allAuthors library) = [None]"
    using allAuthors_bookCount [of library] by (simp add: allAuthors_def library_def)
  from 1 2 n [of "[AddBook accept_all (Some alice) refactoring_args]"] show ?thesis
    by blast
qed

section \<open>Titles are unique\<close>

text \<open>
  Claim C4. When a stored Book has the title given to \<^verbatim>\<open>addBook\<close>, the call of an
  authenticated caller ends in a \<open>UserInputError\<close> and leaves the state as it was,
  so no second Book is inserted; and if the titles of the stored Books are pairwise
  different, they are so after any sequence of requests.
\<close>

theorem addBook_existing_title_rejected:
  "((\<exists>b \<in> set (books s). title b = addBook_title args)
      \<longrightarrow> (\<exists>msg. addBook E (Some u) args s = (Inl (UserInputError msg), s)))
   \<and> (distinct (map title (books s)) \<longrightarrow> distinct (map title (books (run rs s))))"
proof (intro conjI impI)
  assume "\<exists>b \<in> set (books s). title b = addBook_title args"
  then have "findOne_book (books s) (addBook_title args) \<noteq> None"
    by (auto simp: findOne_book_def find_None_iff)
  then show "\<exists>msg. addBook E (Some u) args s = (Inl (UserInputError msg), s)"
    by (simp add: addBook_def)
next
  assume "distinct (map title (books s))"
  then show "distinct (map title (books (run rs s)))"
    by (rule run_titles)
qed

theorem addBook_existing_title_rejected_witness:
  "(\<exists>msg. addBook accept_all (Some alice) clean_code_args library
            = (Inl (UserInputError msg), library))
   \<and> distinct (map title (books (run [AddBook accept_all (Some alice) refactoring_args,
                                      AddBook accept_all (Some alice) refactoring_args,
                                      AddBook accept_all (Some alice) clean_code_args] library)))"
proof -
  have a: "\<exists>b \<in> set (books library). title b = addBook_title clean_code_args"
    by (simp add: library_def clean_code_def clean_code_args_def)
  have d: "distinct (map title (books library))"
    by (simp add: library_def)
  from a d addBook_existing_title_rejected [of library clean_code_args accept_all alice]
  show ?thesis by blast
qed

section \<open>What a failed addBook leaves behind\<close>

text \<open>
  Claim C5, as stated, fails: when the call creates the Author and the write of the
  Book is then rejected, the call ends in a \<open>UserInputError\<close> and the new Author
  stays in the store. Here ``Refactoring'' by the new author Martin Fowler is added
  while the store rejects the write of the book.
\<close>

theorem addBook_rejected_book_keeps_author:
  "addBook reject_books (Some alice) refactoring_args library
     = (Inl (UserInputError ''Book validation failed''),
        library\<lparr>authors := [martin, \<lparr>name = ''Martin Fowler'', born = None,
                                      author_id = 100\<rparr>]\<rparr>)
   \<and> snd (addBook reject_books (Some alice) refactoring_args library) \<noteq> library"
  by (simp add: addBook_def find_or_create_author_def findOne_book_def findOne_author_def
      Let_def library_def clean_code_def refactoring_args_def reject_books_def accept_all_def
      martin_def)

text \<open>
  Claim C5, amended. A call of \<^verbatim>\<open>addBook\<close> that ends in an error has added no Book,
  no User and no event. It has left the whole state unchanged, except in one case:
  the caller was authenticated, all checks of the resolver passed, no Author had the
  given name, the new Author was written, and the write of the Book was rejected;
  then that Author, and nothing else, has been added.
\<close>

theorem addBook_error_state:
  "addBook E currentUser args s = (Inl e, s') \<Longrightarrow>
     books s' = books s \<and> users s' = users s \<and> BOOK_ADDED s' = BOOK_ADDED s
     \<and> (if currentUser \<noteq> None \<and> 2 \<le> length (addBook_title args)
            \<and> addBook_published args \<noteq> None
            \<and> findOne_book (books s) (addBook_title args) = None
            \<and> findOne_author (authors s) (addBook_author args) = None
            \<and> 4 \<le> length (addBook_author args)
            \<and> author_save_error E (authors s)
                 \<lparr>name = addBook_author args, born = None, author_id = new_author_id E\<rparr> = None
         then authors s' = authors s @ [\<lparr>name = addBook_author args, born = None,
                                          author_id = new_author_id E\<rparr>]
              \<and> (\<exists>msg. e = UserInputError msg
                   \<and> book_save_error E (books s)
                        \<lparr>title = addBook_title args, published = addBook_published args,
                         author_ref = new_author_id E, genres = addBook_genres args,
                         book_id = new_book_id E\<rparr> = Some msg)
         else s' = s)"
  by (auto simp: addBook_def find_or_create_author_def Let_def
      split: if_splits option.splits)

theorem addBook_error_state_witness:
  "books (snd (addBook reject_books (Some alice) refactoring_args library)) = books library
   \<and> authors (snd (addBook reject_books (Some alice) refactoring_args library))
       = authors library @ [\<lparr>name = ''Martin Fowler'', born = None, author_id = 100\<rparr>]
   \<and> snd (addBook reject_books (Some alice) clean_code_args library) = library"
proof -
  have 1: "addBook reject_books (Some alice) refactoring_args library
     = (Inl (UserInputError ''Book validation failed''),
        library\<lparr>authors := [martin, \<lparr>name = ''Martin Fowler'', born = None,
                                      author_id = 100\<rparr>]\<rparr>)"
    by (simp add: addBook_def find_or_create_author_def findOne_book_def findOne_author_def
      Let_def library_def clean_code_def refactoring_args_def reject_books_def accept_all_def
      martin_def)
  have 2: "addBook reject_books (Some alice) clean_code_args library
     = (Inl (UserInputError ''Title must be unique''), library)"
    by (simp add: addBook_def findOne_book_def library_def clean_code_def clean_code_args_def)
  have 4: "authors library = [martin]"
    by (simp add: library_def)
  from addBook_error_state [OF 1] addBook_error_state [OF 2] show ?thesis
    by (simp add: 1 2 4)
qed

section \<open>One event for each book added\<close>

text \<open>
  Claim C6. A call of \<^verbatim>\<open>addBook\<close> that returns a book has published exactly one
  payload on \<^verbatim>\<open>'BOOK_ADDED'\<close>, the returned book, which is the book the call stored;
  a call that ends in any error has published nothing. And the call does return a
  book, stored and published once, whenever the caller is authenticated, the checks
  of the resolver pass, the Author is found or created, and the store accepts the
  write of the Book.
\<close>

theorem addBook_publishes_once:
  "(case addBook E currentUser args s of
      (Inr b, s') \<Rightarrow> BOOK_ADDED s' = BOOK_ADDED s @ [b] \<and> books s' = books s @ [fst b]
                      \<and> title (fst b) = addBook_title args
    | (Inl e, s') \<Rightarrow> BOOK_ADDED s' = BOOK_ADDED s)
   \<and> (\<forall>a s1.
        currentUser \<noteq> None \<and> 2 \<le> length (addBook_title args) \<and> addBook_author args \<noteq> []
        \<and> addBook_published args \<noteq> None
        \<and> findOne_book (books s) (addBook_title args) = None
        \<and> find_or_create_author E args s = (Inr a, s1)
        \<and> book_save_error E (books s)
             \<lparr>title = addBook_title args, published = addBook_published args,
              author_ref = author_id a, genres = addBook_genres args,
              book_id = new_book_id E\<rparr> = None
        \<longrightarrow> (\<exists>b. addBook E currentUser args s
                   = (Inr b, s1\<lparr>books := books s @ [fst b],
                                 BOOK_ADDED := BOOK_ADDED s @ [b]\<rparr>)
                  \<and> fst b = \<lparr>title = addBook_title args, published = addBook_published args,
                              author_ref = author_id a, genres = addBook_genres args,
                              book_id = new_book_id E\<rparr>
                  \<and> snd b = findById_author (authors s1) (author_id a)))"
proof (intro conjI allI impI)
  show "case addBook E currentUser args s of
      (Inr b, s') \<Rightarrow> BOOK_ADDED s' = BOOK_ADDED s @ [b] \<and> books s' = books s @ [fst b]
                      \<and> title (fst b) = addBook_title args
    | (Inl e, s') \<Rightarrow> BOOK_ADDED s' = BOOK_ADDED s"
    by (auto simp: addBook_def Let_def populate_def
        split: prod.splits sum.splits option.splits dest: find_or_create_author_frame)
next
  fix a s1
  assume h: "currentUser \<noteq> None \<and> 2 \<le> length (addBook_title args) \<and> addBook_author args \<noteq> []
        \<and> addBook_published args \<noteq> None
        \<and> findOne_book (books s) (addBook_title args) = None
        \<and> find_or_create_author E args s = (Inr a, s1)
        \<and> book_save_error E (books s)
             \<lparr>title = addBook_title args, published = addBook_published args,
              author_ref = author_id a, genres = addBook_genres args,
              book_id = new_book_id E\<rparr> = None"
  then have f: "find_or_create_author E args s = (Inr a, s1)"
    by simp
  from find_or_create_author_frame [OF f]
  have fr: "books s1 = books s" "BOOK_ADDED s1 = BOOK_ADDED s"
    by simp_all
  from h have t: "addBook_title args \<noteq> []"
    by auto
  from h t fr show "\<exists>b. addBook E currentUser args s
                   = (Inr b, s1\<lparr>books := books s @ [fst b],
                                 BOOK_ADDED := BOOK_ADDED s @ [b]\<rparr>)
                  \<and> fst b = \<lparr>title = addBook_title args, published = addBook_published args,
                              author_ref = author_id a, genres = addBook_genres args,
                              book_id = new_book_id E\<rparr>
                  \<and> snd b = findById_author (authors s1) (author_id a)"
    by (simp add: addBook_def Let_def populate_def)
qed

theorem addBook_publishes_once_witness:
  "addBook accept_all (Some alice) refactoring_args library
     = (Inr (refactoring, Some fowler),
        \<lparr>books = [clean_code, refactoring], authors = [martin, fowler], users = [alice],
         BOOK_ADDED = [(refactoring, Some fowler)]\<rparr>)
   \<and> BOOK_ADDED library = []"
proof -
  let ?s1 = "library\<lparr>authors := [martin, fowler]\<rparr>"
  have f: "find_or_create_author accept_all refactoring_args library = (Inr fowler, ?s1)"
    by (simp add: find_or_create_author_def findOne_author_def Let_def library_def martin_def
        refactoring_args_def accept_all_def fowler_def)
  have h: "Some alice \<noteq> None \<and> 2 \<le> length (addBook_title refactoring_args)
        \<and> addBook_author refactoring_args \<noteq> []
        \<and> addBook_published refactoring_args \<noteq> None
        \<and> findOne_book (books library) (addBook_title refactoring_args) = None
        \<and> find_or_create_author accept_all refactoring_args library = (Inr fowler, ?s1)
        \<and> book_save_error accept_all (books library)
             \<lparr>title = addBook_title refactoring_args,
              published = addBook_published refactoring_args,
              author_ref = author_id fowler, genres = addBook_genres refactoring_args,
              book_id = new_book_id accept_all\<rparr> = None"
    using f by (simp add: refactoring_args_def findOne_book_def library_def clean_code_def
        accept_all_def)
  from addBook_publishes_once [where E = accept_all and currentUser = "Some alice"
      and args = refactoring_args and s = library] h
  obtain b where b: "addBook accept_all (Some alice) refactoring_args library
                   = (Inr b, ?s1\<lparr>books := books library @ [fst b],
                                 BOOK_ADDED := BOOK_ADDED library @ [b]\<rparr>)"
     and b1: "fst b = \<lparr>title = addBook_title refactoring_args,
              published = addBook_published refactoring_args,
              author_ref = author_id fowler, genres = addBook_genres refactoring_args,
              book_id = new_book_id accept_all\<rparr>"
     and b2: "snd b = findById_author (authors ?s1) (author_id fowler)"
    by blast
  from b1 have c1: "fst b = refactoring"
    by (simp add: refactoring_def refactoring_args_def fowler_def accept_all_def)
  from b2 have c2: "snd b = Some fowler"
    by (simp add: findById_author_def fowler_def martin_def)
  from c1 c2 have "b = (refactoring, Some fowler)"
    by (cases b) simp
  with b show ?thesis
    by (simp add: library_def)
qed

section \<open>login\<close>

text \<open>
  Claim C7, as stated, fails on the older server: the \<^verbatim>\<open>login\<close> of index.js returns
  the token without a favorite genre. Here alice, whose favorite genre is
  \<open>''tech''\<close>, logs in with the right password.
\<close>

theorem login_index_no_favoriteGenre:
  "login_index toy_jwt library \<lparr>login_username = ''alice'', login_password = ''secret''\<rparr>
     = Inr \<lparr>token_value = ''NEED_HERE_A_SECRET_KEY|IIIIIII|alice'',
            token_favoriteGenre = None\<rparr>
   \<and> favoriteGenre alice = ''tech''"
  by (simp add: login_index_def findOne_user_def library_def alice_def toy_jwt_def toy_sign_def
      JWT_SECRET_def eval_nat_numeral)

text \<open>
  Claim C7, amended. In both versions \<^verbatim>\<open>login\<close> ends in
  \<open>UserInputError ''wrong credentials''\<close> exactly when no stored User has the
  username or the password is not \<open>''secret''\<close>; otherwise it returns, for a stored
  User with that username, the token signed over that user's username and
  identifier: the \<^verbatim>\<open>login\<close> of part_000 together with that user's favorite genre,
  the \<^verbatim>\<open>login\<close> of index.js alone.
\<close>

theorem login_wrong_credentials_iff:
  "(login J s args = Inl (UserInputError ''wrong credentials'')
      \<longleftrightarrow> (\<forall>u \<in> set (users s). username u \<noteq> login_username args)
          \<or> login_password args \<noteq> ''secret'')
   \<and> (login_index J s args = Inl (UserInputError ''wrong credentials'')
      \<longleftrightarrow> (\<forall>u \<in> set (users s). username u \<noteq> login_username args)
          \<or> login_password args \<noteq> ''secret'')
   \<and> (\<not> ((\<forall>u \<in> set (users s). username u \<noteq> login_username args)
          \<or> login_password args \<noteq> ''secret'')
      \<longrightarrow> (\<exists>u \<in> set (users s). username u = login_username args
            \<and> login J s args =
               Inr \<lparr>token_value = jwt_sign J \<lparr>payload_username = username u,
                                              payload_id = user_id u\<rparr> JWT_SECRET,
                    token_favoriteGenre = Some (favoriteGenre u)\<rparr>
            \<and> login_index J s args =
               Inr \<lparr>token_value = jwt_sign J \<lparr>payload_username = username u,
                                              payload_id = user_id u\<rparr> JWT_SECRET,
                    token_favoriteGenre = None\<rparr>))"
proof (cases "findOne_user (users s) (login_username args)")
  case None
  then have "\<forall>u \<in> set (users s). username u \<noteq> login_username args"
    by (auto simp: findOne_user_def find_None_iff)
  with None show ?thesis
    by (simp add: login_def login_index_def)
next
  case (Some u)
  then have u: "u \<in> set (users s)" "username u = login_username args"
    using find_SomeD [of "\<lambda>u. username u = login_username args" "users s" u]
    by (simp_all add: findOne_user_def)
  show ?thesis
  proof (cases "login_password args = ''secret''")
    case True
    with Some u show ?thesis
      by (auto simp: login_def login_index_def Let_def)
  next
    case False
    with Some show ?thesis
      by (simp add: login_def login_index_def)
  qed
qed

theorem login_wrong_credentials_iff_witness:
  "login toy_jwt library \<lparr>login_username = ''alice'', login_password = ''secret''\<rparr>
     = Inr \<lparr>token_value = ''NEED_HERE_A_SECRET_KEY|IIIIIII|alice'',
            token_favoriteGenre = Some ''tech''\<rparr>
   \<and> login toy_jwt library \<lparr>login_username = ''alice'', login_password = ''Secret''\<rparr>
     = Inl (UserInputError ''wrong credentials'')
   \<and> login toy_jwt library \<lparr>login_username = ''bob'', login_password = ''secret''\<rparr>
     = Inl (UserInputError ''wrong credentials'')"
  using login_wrong_credentials_iff [of toy_jwt library
          "\<lparr>login_username = ''alice'', login_password = ''secret''\<rparr>"]
    login_wrong_credentials_iff [of toy_jwt library
          "\<lparr>login_username = ''alice'', login_password = ''Secret''\<rparr>"]
    login_wrong_credentials_iff [of toy_jwt library
          "\<lparr>login_username = ''bob'', login_password = ''secret''\<rparr>"]
  by (simp add: library_def alice_def toy_jwt_def toy_sign_def JWT_SECRET_def eval_nat_numeral)

section \<open>The token of login resolves to the user\<close>

text \<open>
  Claim C8. Let \<open>u\<close> be the stored User that its username finds, and let
  \<^verbatim>\<open>jwt.verify\<close> return what \<^verbatim>\<open>jwt.sign\<close> signed with the same secret. Then \<^verbatim>\<open>login\<close>
  with that username and the password \<open>''secret''\<close> returns a token, and the context
  function, given the header \<^verbatim>\<open>Bearer <token>\<close>, resolves a current user with the
  identifier of \<open>u\<close>.
\<close>

theorem login_token_resolves_user:
  assumes "findOne_user (users s) (username u) = Some u"
    and "\<forall>p. jwt_verify J (jwt_sign J p JWT_SECRET) JWT_SECRET = Some p"
  shows "\<exists>tok u'. login J s \<lparr>login_username = username u, login_password = ''secret''\<rparr> = Inr tok
           \<and> context_currentUser J s (Some (''Bearer '' @ token_value tok)) = Inr (Some u')
           \<and> user_id u' = user_id u"
proof -
  let ?p = "\<lparr>payload_username = username u, payload_id = user_id u\<rparr>"
  let ?tok = "\<lparr>token_value = jwt_sign J ?p JWT_SECRET,
                token_favoriteGenre = Some (favoriteGenre u)\<rparr>"
  from assms(1)
  have l: "login J s \<lparr>login_username = username u, login_password = ''secret''\<rparr> = Inr ?tok"
    by (simp add: login_def Let_def)
  from assms(1) have "u \<in> set (users s)"
    using find_SomeD [of "\<lambda>x. username x = username u" "users s" u]
    by (simp add: findOne_user_def)
  then have "findById_user (users s) (user_id u) \<noteq> None"
    by (auto simp: findById_user_def find_None_iff)
  then obtain u' where f: "findById_user (users s) (user_id u) = Some u'"
    by auto
  then have i: "user_id u' = user_id u"
    using find_SomeD [of "\<lambda>x. user_id x = user_id u" "users s" u']
    by (simp add: findById_user_def)
  from assms(2) have v: "jwt_verify J (jwt_sign J ?p JWT_SECRET) JWT_SECRET = Some ?p"
    by blast
  have "context_currentUser J s (Some (''Bearer '' @ token_value ?tok)) = Inr (Some u')"
    using bearer_prefix [of "jwt_sign J ?p JWT_SECRET"] v f
    by (simp add: context_currentUser_def)
  with l i show ?thesis
    by blast
qed

theorem login_token_resolves_user_witness:
  "context_currentUser toy_jwt library (Some ''Bearer NEED_HERE_A_SECRET_KEY|IIIIIII|alice'')
   = Inr (Some alice)"
proof -
  have a: "findOne_user (users library) (username alice) = Some alice"
    by (simp add: findOne_user_def library_def)
  have j: "\<forall>p. jwt_verify toy_jwt (jwt_sign toy_jwt p JWT_SECRET) JWT_SECRET = Some p"
    by (simp add: toy_jwt_def toy_roundtrip)
  have l: "login toy_jwt library \<lparr>login_username = username alice, login_password = ''secret''\<rparr>
     = Inr \<lparr>token_value = ''NEED_HERE_A_SECRET_KEY|IIIIIII|alice'',
            token_favoriteGenre = Some ''tech''\<rparr>"
    by (simp add: login_def findOne_user_def library_def alice_def toy_jwt_def toy_sign_def
        JWT_SECRET_def eval_nat_numeral)
  from login_token_resolves_user [OF a j] l obtain u' where
    c: "context_currentUser toy_jwt library
          (Some (''Bearer '' @ ''NEED_HERE_A_SECRET_KEY|IIIIIII|alice'')) = Inr (Some u')"
    by auto
  then have "u' \<in> set (users library)"
    using find_SomeD [of _ "users library" u']
    by (auto simp: context_currentUser_def findById_user_def split: if_splits option.splits)
  then have "u' = alice"
    by (simp add: library_def)
  with c show ?thesis by simp
qed

section \<open>editAuthor changes the birth year and nothing else\<close>

text \<open>
  Claim C9. Let the identifiers of the stored Authors be pairwise different (they are
  the primary key of the collection), and let \<open>a\<close> be the Author that the name
  finds. A call of \<^verbatim>\<open>editAuthor\<close> by an authenticated caller changes no Book, no
  User and no event. When the store accepts the write, the call returns \<open>a\<close>
  with \<^verbatim>\<open>born\<close> set to \<^verbatim>\<open>setBornTo\<close>, and the Authors are as before except that \<open>a\<close>
  is replaced by this record, whose name and identifier are those of \<open>a\<close>. When the
  store rejects the write, the call ends in a \<open>UserInputError\<close> and the state is
  unchanged.
\<close>

theorem editAuthor_sets_born_only:
  assumes "distinct (map author_id (authors s))"
    and "findOne_author (authors s) (editAuthor_name args) = Some a"
    and "editAuthor E (Some u) args s = (r, s')"
  shows "books s' = books s \<and> users s' = users s \<and> BOOK_ADDED s' = BOOK_ADDED s
     \<and> (case author_save_error E (authors s) (a\<lparr>born := Some (editAuthor_setBornTo args)\<rparr>) of
          None \<Rightarrow>
            r = Inr (a\<lparr>born := Some (editAuthor_setBornTo args)\<rparr>)
            \<and> authors s' = map (\<lambda>x. if x = a then a\<lparr>born := Some (editAuthor_setBornTo args)\<rparr>
                                     else x) (authors s)
        | Some msg \<Rightarrow> r = Inl (UserInputError msg) \<and> s' = s)"
proof -
  from assms(2) have "a \<in> set (authors s)"
    using find_SomeD [of "\<lambda>x. name x = editAuthor_name args" "authors s" a]
    by (simp add: findOne_author_def)
  with assms(1) have
    "update_author (a\<lparr>born := Some (editAuthor_setBornTo args)\<rparr>) (authors s)
       = map (\<lambda>x. if x = a then a\<lparr>born := Some (editAuthor_setBornTo args)\<rparr> else x) (authors s)"
    by (simp add: update_author_map)
  with assms(2,3) show ?thesis
    by (auto simp: editAuthor_def Let_def split: option.splits)
qed

theorem editAuthor_sets_born_only_witness:
  "editAuthor accept_all (Some alice)
     \<lparr>editAuthor_name = ''Robert Martin'', editAuthor_setBornTo = 1953\<rparr> library
   = (Inr (martin\<lparr>born := Some 1953\<rparr>), library\<lparr>authors := [martin\<lparr>born := Some 1953\<rparr>]\<rparr>)"
proof -
  have d: "distinct (map author_id (authors library))"
    by (simp add: library_def)
  have f: "findOne_author (authors library)
             (editAuthor_name \<lparr>editAuthor_name = ''Robert Martin'', editAuthor_setBornTo = 1953\<rparr>)
           = Some martin"
    by (simp add: findOne_author_def library_def martin_def)
  obtain r s' where e: "editAuthor accept_all (Some alice)
     \<lparr>editAuthor_name = ''Robert Martin'', editAuthor_setBornTo = 1953\<rparr> library = (r, s')"
    by (cases "editAuthor accept_all (Some alice)
     \<lparr>editAuthor_name = ''Robert Martin'', editAuthor_setBornTo = 1953\<rparr> library")
  from editAuthor_sets_born_only [OF d f e]
  have "r = Inr (martin\<lparr>born := Some 1953\<rparr>)"
    and "s' = library\<lparr>authors := [martin\<lparr>born := Some 1953\<rparr>]\<rparr>"
    by (simp_all add: accept_all_def library_def)
  with e show ?thesis by simp
qed

section \<open>Empty strings as filters of allBooks\<close>


end
